theory Spec2Isabelle
  imports Main "HOL-Library.Word"
begin

section \<open>JavaScript text, bytes and values\<close>

text \<open>
  A JavaScript string is a sequence of code units; the model takes the code units
  \<open>0..255\<close> (one \<open>char\<close> each), so \<open>s.length\<close> is \<open>length s\<close>.  A \<open>Buffer\<close>, and
  whatever travels on a socket, is a sequence of bytes.  Writing a string to a socket
  sends its UTF-8 encoding, and \<open>Buffer.byteLength(s)\<close> is the length of that encoding:
  a code unit below 128 is one byte, the others of this range are two.
\<close>

type_synonym byte = "8 word"

definition utf8_char :: "char \<Rightarrow> byte list" where
  "utf8_char c =
     (let n = (of_char c :: nat)
      in if n < 128 then [of_nat n] else [of_nat (192 + n div 64), of_nat (128 + n mod 64)])"

definition utf8 :: "string \<Rightarrow> byte list" where
  "utf8 s = concat (map utf8_char s)"

definition byteLength :: "string \<Rightarrow> nat" where
  "byteLength s = length (utf8 s)"

definition crlf :: string where
  "crlf = [CHR 0x0D, CHR 0x0A]"

text \<open>Decimal notation of a number, as a template literal prints \<open>${n}\<close>.\<close>

definition digit :: "nat \<Rightarrow> char" where
  "digit d = ''0123456789'' ! d"

function show_nat :: "nat \<Rightarrow> string" where
  "show_nat n = (if n < 10 then [digit n] else show_nat (n div 10) @ [digit (n mod 10)])"
  by pat_completeness auto
termination
  by (relation "measure id") auto

declare show_nat.simps [simp del]

definition show_int :: "int \<Rightarrow> string" where
  "show_int i = (if i < 0 then ''-'' @ show_nat (nat (- i)) else show_nat (nat i))"

text \<open>
  The values that reach the two classes as command arguments.  \<open>JHandler h\<close> is the
  object \<open>{ resolve, reject }\<close> of the promise numbered \<open>h\<close>.  Numbers are the integers.
\<close>

datatype jsval =
    JUndefined
  | JNull
  | JBool bool
  | JNum int
  | JStr string
  | JBuf "byte list"
  | JArr "jsval list"
  | JHandler nat

fun join_comma :: "string list \<Rightarrow> string" where
  "join_comma [] = ''''"
| "join_comma [s] = s"
| "join_comma (s # t # ss) = s @ '','' @ join_comma (t # ss)"

text \<open>
  \<open>String(v)\<close>.  An array prints its elements separated by commas, \<open>null\<close> and
  \<open>undefined\<close> elements as nothing; a plain object prints \<open>[object Object]\<close>; a Buffer
  decodes its bytes (exact here for bytes below 128).
\<close>

fun js_String :: "jsval \<Rightarrow> string" where
  "js_String JUndefined = ''undefined''"
| "js_String JNull = ''null''"
| "js_String (JBool b) = (if b then ''true'' else ''false'')"
| "js_String (JNum i) = show_int i"
| "js_String (JStr s) = s"
| "js_String (JBuf b) = map (\<lambda>w. char_of (unat w)) b"
| "js_String (JArr xs) =
     join_comma (map (\<lambda>x. if x = JUndefined \<or> x = JNull then '''' else js_String x) xs)"
| "js_String (JHandler h) = ''[object Object]''"

section \<open>Connection.js: the transport\<close>

subsection \<open>State and observable effects\<close>

text \<open>
  A handler of the pending queue is either an object with \<open>resolve\<close> and \<open>reject\<close>
  (\<open>HObj\<close>) or a bare function (\<open>HFun\<close>): the field is an \<open>Array<Object|Function>\<close>.
\<close>

datatype handler = HObj nat | HFun nat

datatype js_error = Error string | TypeError string

datatype reply =
    RStatus string
  | RError string
  | RInt int
  | RBulk string
  | RNil
  | RMulti "reply list"

datatype chunk = Text string | Bin "byte list"

text \<open>
  What the connection does to the outside, in the order it does it: calls on the
  socket, events it emits, calls on handlers, timers.
\<close>

datatype effect =
    StreamWrite chunk
  | StreamEnd
  | StreamDestroy
  | StreamConnect nat string
  | Emit string string
  | ClientEmitError string
  | Resolve nat reply
  | Reject nat js_error
  | Call nat "js_error option" "reply option"
  | SetTimeout nat
  | ClearTimeout

record host =
  host_name :: string
  port :: nat
  host_string :: string
  weight :: nat

record connection =
  conn_host :: host
  retryDelay :: nat
  connected :: bool
  ended :: bool
  reconnecting :: bool
  reader :: "byte list"
  handlers :: "handler list"
  retryTimer :: "nat option"
  log :: "effect list"

text \<open>
  The constructor: \<open>options.retryDelay || 2000\<close>, a socket that starts connecting, a
  fresh decoder, no handler.  The flags \<open>connected\<close>, \<open>ended\<close> and \<open>reconnecting\<close> are
  not assigned, so they read as false.  The socket options (\<open>setNoDelay\<close>,
  \<open>setKeepAlive\<close>, \<open>setTimeout\<close>) are not part of the state.
\<close>

definition Connection :: "host \<Rightarrow> nat option \<Rightarrow> connection" where
  "Connection h rd =
     \<lparr> conn_host = h,
       retryDelay = (case rd of None \<Rightarrow> 2000 | Some d \<Rightarrow> if d = 0 then 2000 else d),
       connected = False, ended = False, reconnecting = False,
       reader = [], handlers = [], retryTimer = None,
       log = [StreamConnect (port h) (host_name h)] \<rparr>"

definition emitted :: "connection \<Rightarrow> connection \<Rightarrow> effect list" where
  "emitted c c' = drop (length (log c)) (log c')"

subsection \<open>write\<close>

text \<open>
  \<open>write\<close> and \<open>end\<close> are words of the proof language, so the two methods are
  \<open>conn_write\<close> and \<open>conn_end\<close> here.  The loop of \<open>write\<close> over \<open>pack\<close>: \<open>command\<close> is the text not yet written, \<open>out\<close> the
  chunks already handed to \<open>stream.write\<close>.  A Buffer flushes the text before it and
  goes out as three chunks; anything else is converted with \<open>String\<close> and appended to
  the text.
\<close>

fun write_loop :: "jsval list \<Rightarrow> string \<Rightarrow> chunk list \<Rightarrow> string \<times> chunk list" where
  "write_loop [] command out = (command, out)"
| "write_loop (JBuf b # rest) command out =
     write_loop rest ''''
       ((if command \<noteq> '''' then out @ [Text command] else out)
          @ [Text (''$'' @ show_nat (length b) @ crlf), Bin b, Text crlf])"
| "write_loop (item # rest) command out =
     (let s = js_String item
      in write_loop rest (command @ ''$'' @ show_nat (byteLength s) @ crlf @ s @ crlf) out)"

definition write_chunks :: "string \<Rightarrow> jsval list \<Rightarrow> chunk list" where
  "write_chunks cmd pack =
     (let command = ''*'' @ show_nat (length pack + 1) @ crlf
                    @ ''$'' @ show_nat (length cmd) @ crlf @ cmd @ crlf;
          (command', out) = write_loop pack command []
      in if command' \<noteq> '''' then out @ [Text command'] else out)"

definition conn_write :: "string \<Rightarrow> jsval list \<Rightarrow> handler \<Rightarrow> connection \<Rightarrow> connection" where
  "conn_write cmd pack handler c =
     c\<lparr> handlers := handlers c @ [handler],
        log := log c @ map StreamWrite (write_chunks cmd pack) \<rparr>"

text \<open>The bytes a run of effects puts on the socket.\<close>

fun chunk_bytes :: "chunk \<Rightarrow> byte list" where
  "chunk_bytes (Text s) = utf8 s"
| "chunk_bytes (Bin b) = b"

fun stream_bytes :: "effect list \<Rightarrow> byte list" where
  "stream_bytes [] = []"
| "stream_bytes (StreamWrite ch # es) = chunk_bytes ch @ stream_bytes es"
| "stream_bytes (e # es) = stream_bytes es"

text \<open>
  The frame as the specification words it: the header
  \<open>*<argc+1>\r\n$<len(cmd)>\r\n<cmd>\r\n\<close>, then per argument
  \<open>$<len(arg)>\r\n<arg>\r\n\<close>; a Buffer verbatim with its byte count, anything else
  stringified first, with the byte count of its text.
\<close>

fun arg_frame :: "jsval \<Rightarrow> byte list" where
  "arg_frame (JBuf b) = utf8 (''$'' @ show_nat (length b) @ crlf) @ b @ utf8 crlf"
| "arg_frame v =
     utf8 (''$'' @ show_nat (byteLength (js_String v)) @ crlf @ js_String v @ crlf)"

definition resp_frame :: "string \<Rightarrow> jsval list \<Rightarrow> byte list" where
  "resp_frame cmd pack =
     utf8 (''*'' @ show_nat (length pack + 1) @ crlf
           @ ''$'' @ show_nat (length cmd) @ crlf @ cmd @ crlf)
     @ concat (map arg_frame pack)"

subsection \<open>end\<close>

definition conn_end :: "connection \<Rightarrow> connection" where
  "conn_end c =
     (if ended c then c
      else c\<lparr> ended := True, connected := False, retryTimer := None,
              log := log c @ [StreamEnd, Emit ''end'' '''', ClearTimeout] \<rparr>)"

subsection \<open>The decoder\<close>

text \<open>
  \<open>hiredis.Reader\<close> is a library: \<open>feed\<close> appends bytes to its buffer, \<open>get\<close> looks at
  the buffer and returns \<open>undefined\<close> when no reply is complete, or ONE reply, which it
  removes from the buffer, or throws on bytes that are no reply.  The transport is
  modelled over any such function of the buffer.
\<close>

datatype decoded = Incomplete | Decoded reply "byte list" | ProtocolError string

type_synonym decoder = "byte list \<Rightarrow> decoded"

subsection \<open>The loss of the connection\<close>

text \<open>
  The \<open>for ... of\<close> loop of \<open>_connectionLost\<close> over the pending handlers, \<open>acc\<close> the
  calls made so far.  A function is called with the error, and then \<open>handler.reject\<close>,
  which a function does not have, is called all the same: a TypeError, which leaves
  the loop and the method.
\<close>

definition lost_error :: "string \<Rightarrow> js_error" where
  "lost_error s = Error (''Server connection lost to '' @ s)"

fun reject_all :: "string \<Rightarrow> handler list \<Rightarrow> effect list \<Rightarrow> js_error option \<times> effect list" where
  "reject_all s [] acc = (None, acc)"
| "reject_all s (HObj h # rest) acc = reject_all s rest (acc @ [Reject h (lost_error s)])"
| "reject_all s (HFun f # rest) acc =
     (Some (TypeError ''handler.reject is not a function''),
      acc @ [Call f (Some (lost_error s)) None])"

text \<open>
  The result is the exception that leaves the method, if any, and the state it leaves
  behind.
\<close>

definition connectionLost :: "string \<Rightarrow> connection \<Rightarrow> js_error option \<times> connection" where
  "connectionLost reason c =
     (if ended c \<or> reconnecting c then (None, c)
      else
        let c1 = c\<lparr> connected := False, reconnecting := True \<rparr>;
            (thrown, calls) = reject_all (host_string (conn_host c1)) (handlers c1) []
        in case thrown of
             Some e \<Rightarrow> (Some e, c1\<lparr> log := log c1 @ calls \<rparr>)
           | None \<Rightarrow>
               (None, c1\<lparr> handlers := [], retryTimer := Some (retryDelay c1),
                          log := log c1 @ calls @
                            [Emit ''reconnect'' '''', Emit ''debug'' reason,
                             SetTimeout (retryDelay c1)] \<rparr>))"

text \<open>The callback of the retry timer, when the timer is still armed.\<close>

definition retry_fired :: "connection \<Rightarrow> connection" where
  "retry_fired c =
     (case retryTimer c of
        None \<Rightarrow> c
      | Some d \<Rightarrow>
          c\<lparr> reconnecting := False, retryTimer := None,
             log := log c @ [StreamConnect (port (conn_host c)) (host_name (conn_host c))] \<rparr>)"

subsection \<open>The listeners of \<open>_attachEvents\<close>\<close>

definition on_connect :: "connection \<Rightarrow> connection" where
  "on_connect c = c\<lparr> connected := True, reader := [], log := log c @ [Emit ''connect'' ''''] \<rparr>"

definition on_close :: "connection \<Rightarrow> js_error option \<times> connection" where
  "on_close c = connectionLost ''close'' c"

definition on_end :: "connection \<Rightarrow> js_error option \<times> connection" where
  "on_end c = connectionLost ''end'' c"

definition on_error :: "string \<Rightarrow> connection \<Rightarrow> js_error option \<times> connection" where
  "on_error msg c =
     connectionLost ''error''
       (c\<lparr> log := log c @
            [ClientEmitError (''redis-nextra connection to '' @ host_string (conn_host c)
                              @ '' failed: '' @ msg)] \<rparr>)"

text \<open>
  The \<open>data\<close> listener: feed the chunk, ask the decoder ONCE.  On a reply the oldest
  handler is taken off the queue (\<open>shift\<close> of an empty queue gives \<open>undefined\<close>, and
  the calls on it are TypeErrors); an error reply goes to \<open>handler.reject\<close> without a
  look at the handler's type.
\<close>

definition on_data :: "decoder \<Rightarrow> byte list \<Rightarrow> connection \<Rightarrow> js_error option \<times> connection" where
  "on_data dec data c =
     (let c1 = c\<lparr> reader := reader c @ data \<rparr>
      in case dec (reader c1) of
           ProtocolError msg \<Rightarrow>
             (None, c1\<lparr> log := log c1 @ [Emit ''error'' (''Parser error: '' @ msg),
                                          StreamDestroy] \<rparr>)
         | Incomplete \<Rightarrow> (None, c1)
         | Decoded response rest \<Rightarrow>
             (let c2 = c1\<lparr> reader := rest \<rparr>
              in case handlers c2 of
                   [] \<Rightarrow> (Some (TypeError ''handler is undefined''), c2)
                 | handler # hs \<Rightarrow>
                     (let c3 = c2\<lparr> handlers := hs \<rparr>
                      in case (response, handler) of
                           (RError msg, HObj h) \<Rightarrow>
                             (None, c3\<lparr> log := log c3 @ [Reject h (Error msg)] \<rparr>)
                         | (RError msg, HFun f) \<Rightarrow>
                             (Some (TypeError ''handler.reject is not a function''), c3)
                         | (_, HFun f) \<Rightarrow>
                             (None, c3\<lparr> log := log c3 @ [Call f None (Some response)] \<rparr>)
                         | (_, HObj h) \<Rightarrow>
                             (None, c3\<lparr> log := log c3 @ [Resolve h response] \<rparr>))))"

text \<open>
  Several \<open>data\<close> events in a row; an exception of a listener goes to the event loop
  and the next event finds the state the listener left.
\<close>

fun feed_chunks :: "decoder \<Rightarrow> byte list list \<Rightarrow> connection \<Rightarrow> connection" where
  "feed_chunks dec [] c = c"
| "feed_chunks dec (d # ds) c = feed_chunks dec ds (snd (on_data dec d c))"

subsection \<open>A decoder for the one-line replies\<close>

text \<open>
  An instance of the decoder to run the transport on bytes: a status reply
  \<open>+text\r\n\<close> and an error reply \<open>-text\r\n\<close>, one per call, as the library returns
  them.  The replies of several lines (bulks, arrays) and integers are left out: the
  instance is run on status and error replies and on a byte that starts no reply.
\<close>

fun take_line :: "byte list \<Rightarrow> (byte list \<times> byte list) option" where
  "take_line [] = None"
| "take_line [b] = None"
| "take_line (a # b # bs) =
     (if a = 13 \<and> b = 10 then Some ([], bs)
      else case take_line (b # bs) of None \<Rightarrow> None | Some (l, r) \<Rightarrow> Some (a # l, r))"

definition ascii :: "byte list \<Rightarrow> string" where
  "ascii bs = map (\<lambda>w. char_of (unat w)) bs"

definition line_decoder :: decoder where
  "line_decoder buf =
     (case buf of
        [] \<Rightarrow> Incomplete
      | t # rest \<Rightarrow>
          if t = 43 then
            (case take_line rest of
               None \<Rightarrow> Incomplete
             | Some (l, r) \<Rightarrow> Decoded (RStatus (ascii l)) r)
          else if t = 45 then
            (case take_line rest of
               None \<Rightarrow> Incomplete
             | Some (l, r) \<Rightarrow> Decoded (RError (ascii l)) r)
          else ProtocolError (''Protocol error, got '' @ ascii [t] @ '' as reply type byte''))"

subsection \<open>Reading the effects\<close>

text \<open>How many times a run of effects arms a timer.\<close>

fun timers_armed :: "effect list \<Rightarrow> nat" where
  "timers_armed [] = 0"
| "timers_armed (SetTimeout d # es) = Suc (timers_armed es)"
| "timers_armed (e # es) = timers_armed es"

text \<open>
  One \<open>reject\<close> with the connection-lost error for each of the handler objects
  \<open>ids\<close>, in their order.
\<close>

definition rejections :: "string \<Rightarrow> nat list \<Rightarrow> effect list" where
  "rejections s ids = map (\<lambda>i. Reject i (lost_error s)) ids"

text \<open>
  What the \<open>data\<close> listener does with a reply for the handler object \<open>i\<close>: an error
  reply rejects, any other reply resolves.
\<close>

definition settle :: "nat \<Rightarrow> reply \<Rightarrow> effect" where
  "settle i r = (case r of RError msg \<Rightarrow> Reject i (Error msg) | _ \<Rightarrow> Resolve i r)"

subsection \<open>Connections to run\<close>

definition host_a :: host where
  "host_a = \<lparr> host_name = ''127.0.0.1'', port = 6379,
               host_string = ''127.0.0.1:6379'', weight = 1 \<rparr>"

definition live_conn :: connection where
  "live_conn = on_connect (Connection host_a None)"

definition ended_conn :: connection where
  "ended_conn = conn_end live_conn"

text \<open>Two commands written, no reply yet; then both replies in one chunk.\<close>

definition pending2 :: connection where
  "pending2 = conn_write ''PING'' [] (HObj 1) (conn_write ''PING'' [] (HObj 0) live_conn)"

definition two_replies :: "byte list" where
  "two_replies = utf8 (''+OK'' @ crlf @ ''+OK'' @ crlf)"

text \<open>A pending queue that holds a function between two objects.\<close>

definition mixed_conn :: connection where
  "mixed_conn = live_conn\<lparr> handlers := [HObj 0, HFun 1, HObj 2] \<rparr>"

section \<open>ServerManager: the router\<close>

subsection \<open>The key that is hashed\<close>

text \<open>
  \<open>s.substring(a, b)\<close>: the code units from the smaller index up to the larger one,
  both cut at the length.
\<close>

definition substring :: "string \<Rightarrow> nat \<Rightarrow> nat \<Rightarrow> string" where
  "substring s a b = take (max a b - min a b) (drop (min a b) s)"

text \<open>
  The two loops of \<open>serverNameForKey\<close>.  The inner one runs \<open>j\<close> from \<open>i + 1\<close> and, at
  the first \<open>}\<close>, replaces the key by \<open>key.substring(i + 1, j)\<close>; the outer one runs \<open>i\<close>
  from \<open>0\<close> and stops at the first \<open>{\<close>, whatever the inner loop found.
\<close>

function find_close :: "string \<Rightarrow> nat \<Rightarrow> nat \<Rightarrow> string" where
  "find_close key i j =
     (if j < length key
      then (if key ! j = CHR ''}'' then substring key (i + 1) j else find_close key i (j + 1))
      else key)"
  by pat_completeness auto
termination
  by (relation "measure (\<lambda>(key, i, j). length key - j)") auto

function find_open :: "string \<Rightarrow> nat \<Rightarrow> string" where
  "find_open key i =
     (if i < length key
      then (if key ! i = CHR ''{'' then find_close key i (i + 1) else find_open key (i + 1))
      else key)"
  by pat_completeness auto
termination
  by (relation "measure (\<lambda>(key, i). length key - i)") auto

declare find_close.simps [simp del] find_open.simps [simp del]

definition hash_tag :: "string \<Rightarrow> string" where
  "hash_tag key = find_open key 0"

subsection \<open>The ring and the command table\<close>

text \<open>
  The ring is an object of the library \<open>consistent\<close>.  It keeps its \<open>members\<close> in a
  plain object with one property per member, named by the member's key and holding
  the \<open>{ key, weight }\<close> record: adding a key that is there already replaces its
  record, and the object is no array, so it has a property \<open>length\<close> or \<open>0\<close> only if
  a member is keyed so.  The properties are listed here in the order of their
  insertion.  \<open>getCached\<close> maps a string to the key of the member that owns it; the
  lookup is a parameter of the model.
\<close>

record member =
  member_key :: string
  member_weight :: nat

type_synonym members = "(string \<times> member) list"

type_synonym ring_lookup = "members \<Rightarrow> string \<Rightarrow> string"

text \<open>
  Reading the property \<open>name\<close> of the members object; \<open>None\<close> is \<open>undefined\<close>, the
  value of a property the object does not have.
\<close>

definition members_prop :: "members \<Rightarrow> string \<Rightarrow> member option" where
  "members_prop ms name = map_of ms name"

text \<open>
  \<open>v === 1\<close> for the value \<open>v\<close> of a property of the members object: \<open>undefined\<close> is
  not the number 1, and a member record is not.
\<close>

definition strictly_one :: "member option \<Rightarrow> bool" where
  "strictly_one v = (case v of None \<Rightarrow> False | Some mem \<Rightarrow> False)"

text \<open>
  \<open>ring.add(member)\<close> sets the property named by the member's key;
  \<open>ring.replace(old, member)\<close> takes the old key out and sets the new one.
\<close>

fun members_add :: "members \<Rightarrow> member \<Rightarrow> members" where
  "members_add [] mem = [(member_key mem, mem)]"
| "members_add ((k, x) # ms) mem =
     (if k = member_key mem then (k, mem) # ms else (k, x) # members_add ms mem)"

definition members_replace :: "members \<Rightarrow> string \<Rightarrow> member \<Rightarrow> members" where
  "members_replace ms old mem = members_add (filter (\<lambda>(k, x). k \<noteq> old) ms) mem"

definition serverNameForKey :: "ring_lookup \<Rightarrow> members \<Rightarrow> jsval \<Rightarrow> string" where
  "serverNameForKey getCached ms key = getCached ms (hash_tag (js_String key))"

text \<open>
  An entry of the command table \<open>./commands\<close>, which is a parameter of the model:
  \<open>supported\<close> may be absent, \<open>key\<close> is the index of the key argument when there is
  one, \<open>router\<close> tells whether the entry has a router function of its own.
\<close>

record descriptor =
  d_supported :: "bool option"
  d_key :: "nat option"
  d_router :: bool

type_synonym command_table = "string \<Rightarrow> descriptor option"

subsection \<open>The offline queue\<close>

text \<open>
  Modelled from the spec: \<open>./OfflineQueue\<close> is not among the sources.  An entry is
  (command name, argument list, result handle); \<open>push(cmd, args, handle)\<close> appends one,
  \<open>drain()\<close> hands out the entries once, in the order they came.  No bound is given, so
  the queue has none here.
\<close>

type_synonym entry = "string \<times> jsval list \<times> nat"

definition queue_push :: "string \<Rightarrow> jsval list \<Rightarrow> nat \<Rightarrow> entry list \<Rightarrow> entry list" where
  "queue_push cmd args h q = q @ [(cmd, args, h)]"

definition queue_drain :: "entry list \<Rightarrow> entry list \<times> entry list" where
  "queue_drain q = (q, [])"

subsection \<open>State and effects\<close>

text \<open>
  Promises are numbered in the order \<open>sendCommand\<close> creates them.  The trace records
  what the router does with them: a rejection, or the hand-over of the
  \<open>{ resolve, reject }\<close> pair to a router function or to the \<open>sendCommand\<close> of a server
  (\<open>./Server\<close>, not among the sources).
\<close>

datatype m_effect =
    Rejected nat js_error
  | RouterCall string "jsval list" nat
  | ServerSend string string "jsval list" nat

record manager =
  mgr_ended :: bool
  offlineQueue :: "entry list option"
  ring :: "members option"
  hosts :: "host list"
  replacementHosts :: "host list"
  servers :: "string \<rightharpoonup> host"
  next_promise :: nat
  trace :: "m_effect list"

subsection \<open>sendToServer, sendCommand\<close>

definition sendToServer :: "string \<Rightarrow> string \<Rightarrow> jsval list \<Rightarrow> nat \<Rightarrow> manager \<Rightarrow> manager" where
  "sendToServer name cmd args next m =
     (case servers m name of
        None \<Rightarrow>
          m\<lparr> trace := trace m @
                 [Rejected next (Error ''Unable to acquire any server connections.'')] \<rparr>
      | Some server \<Rightarrow> m\<lparr> trace := trace m @ [ServerSend name cmd args next] \<rparr>)"

definition reject :: "nat \<Rightarrow> js_error \<Rightarrow> manager \<Rightarrow> manager" where
  "reject p e m = m\<lparr> trace := trace m @ [Rejected p e] \<rparr>"

text \<open>\<open>args[k]\<close>, which is \<open>undefined\<close> beyond the end of the array.\<close>

definition arg_at :: "jsval list \<Rightarrow> nat \<Rightarrow> jsval" where
  "arg_at args k = (if k < length args then args ! k else JUndefined)"

text \<open>
  \<open>sendCommand(cmd, ...args)\<close> returns a new promise and runs its executor at once.
  The checks are in the order of the source: ended, offline queue, a single array
  argument taken as the argument list, then the command's entry: router, the test
  \<open>this.ring.members.length === 1\<close>, key argument.  The test reads the property
  \<open>length\<close> of the members object, and \<open>this.ring.members[0]\<close> its property \<open>0\<close>,
  whose \<open>key\<close> cannot be read when it is \<open>undefined\<close>.  Without a ring, reading
  \<open>this.ring.members\<close> throws; what is thrown inside the executor rejects the promise.
\<close>

definition sendCommand ::
    "command_table \<Rightarrow> ring_lookup \<Rightarrow> string \<Rightarrow> jsval list \<Rightarrow> manager \<Rightarrow> nat \<times> manager" where
  "sendCommand commands getCached cmd args0 m0 =
     (let p = next_promise m0;
          m = m0\<lparr> next_promise := Suc p \<rparr>;
          unsupported = reject p (Error (''Command not supported: '' @ cmd)) m
      in (p,
          if mgr_ended m then reject p (Error ''Client has been ended.'') m
          else
            (case offlineQueue m of
               Some q \<Rightarrow> m\<lparr> offlineQueue := Some (queue_push cmd args0 p q) \<rparr>
             | None \<Rightarrow>
                 (let args = (case args0 of [JArr xs] \<Rightarrow> xs | _ \<Rightarrow> args0)
                  in (case commands cmd of
                        None \<Rightarrow> unsupported
                      | Some command \<Rightarrow>
                          if d_supported command = Some False then unsupported
                          else if d_router command then
                            m\<lparr> trace := trace m @ [RouterCall cmd args p] \<rparr>
                          else
                            (case ring m of
                               None \<Rightarrow> reject p (TypeError ''this.ring is null'') m
                             | Some ms \<Rightarrow>
                                 if strictly_one (members_prop ms ''length'') then
                                   (case members_prop ms ''0'' of
                                      None \<Rightarrow>
                                        reject p
                                          (TypeError ''this.ring.members[0] is undefined'') m
                                    | Some mem \<Rightarrow>
                                        sendToServer
                                          (serverNameForKey getCached ms
                                             (JStr (member_key mem)))
                                          cmd args p m)
                                 else
                                   (case d_key command of
                                      Some k \<Rightarrow>
                                        sendToServer
                                          (serverNameForKey getCached ms (arg_at args k))
                                          cmd args p m
                                    | None \<Rightarrow> unsupported)))))))"

subsection \<open>addServer, connect\<close>

text \<open>
  \<open>addServer\<close> registers a new server under the host's identity and puts the identity
  on the ring, with \<open>ring.replace\<close> when the host replaces another and with \<open>ring.add\<close>
  otherwise.  A host without a port gets 6379 (\<open>host.port || 6379\<close>).
\<close>

definition default_port :: "host \<Rightarrow> host" where
  "default_port h = h\<lparr> port := (if port h = 0 then 6379 else port h) \<rparr>"

definition addServer :: "host \<Rightarrow> host option \<Rightarrow> manager \<Rightarrow> manager" where
  "addServer h0 replacementOf m =
     (let h = default_port h0;
          mem = \<lparr> member_key = host_string h, member_weight = weight h \<rparr>;
          ms = (case ring m of None \<Rightarrow> [] | Some ms \<Rightarrow> ms)
      in m\<lparr> servers := (servers m)(host_string h \<mapsto> h),
            ring := Some (case replacementOf of
                            None \<Rightarrow> members_add ms mem
                          | Some old \<Rightarrow> members_replace ms (host_string old) mem) \<rparr>)"

text \<open>
  The loop at the end of \<open>connect\<close>: \<open>this.sendCommand(...entry)\<close> spreads the entry
  over the parameters \<open>(cmd, ...args)\<close>, so the command name is the entry's first
  component and the rest parameter receives the other two, the queued argument array
  and the queued handle.
\<close>

fun resubmit :: "command_table \<Rightarrow> ring_lookup \<Rightarrow> entry list \<Rightarrow> manager \<Rightarrow> manager" where
  "resubmit commands getCached [] m = m"
| "resubmit commands getCached ((cmd, args, h) # es) m =
     resubmit commands getCached es
       (snd (sendCommand commands getCached cmd [JArr args, JHandler h] m))"

text \<open>
  \<open>connect\<close>, given the hosts and replacement hosts that \<open>connection-parse\<close> made of the
  configuration: a fresh ring, a server per host, then the offline queue, if there
  is one, is drained, deleted and re-submitted.  \<open>addServer\<close> writes the default
  port into the host object it is given, which is the one in \<open>this.hosts\<close>.
\<close>

definition connect ::
    "command_table \<Rightarrow> ring_lookup \<Rightarrow> host list \<Rightarrow> host list \<Rightarrow> manager \<Rightarrow> manager" where
  "connect commands getCached hs rhs m =
     (let m1 = m\<lparr> hosts := map default_port (hosts m @ hs),
                  replacementHosts := replacementHosts m @ rhs, ring := Some [] \<rparr>;
          m2 = fold (\<lambda>h. addServer h None) (hosts m1) m1
      in case offlineQueue m2 of
           None \<Rightarrow> m2
         | Some q \<Rightarrow>
             (let (offlineCommands, q') = queue_drain q
              in resubmit commands getCached offlineCommands (m2\<lparr> offlineQueue := None \<rparr>)))"

subsection \<open>A table, a ring and a router to run\<close>

text \<open>
  A command table with a key-addressed command, a command with a router, a command
  marked unsupported and a supported command that has neither key nor router; every
  other name is unknown.
\<close>

definition sample_commands :: command_table where
  "sample_commands cmd =
     (if cmd = ''GET'' then Some \<lparr> d_supported = None, d_key = Some 0, d_router = False \<rparr>
      else if cmd = ''KEYS'' then Some \<lparr> d_supported = None, d_key = None, d_router = True \<rparr>
      else if cmd = ''MOVE'' then Some \<lparr> d_supported = Some False, d_key = Some 0, d_router = False \<rparr>
      else if cmd = ''PING'' then Some \<lparr> d_supported = Some True, d_key = None, d_router = False \<rparr>
      else None)"

text \<open>
  A lookup that answers with the very key it is asked for, whatever the ring: it
  shows which key \<open>serverNameForKey\<close> hashes.
\<close>

definition asked_key :: ring_lookup where
  "asked_key ms k = k"

text \<open>
  A lookup that always answers with a member of the ring: the member whose index is
  the sum of the key's code units modulo the number of members.
\<close>

definition sum_ring :: ring_lookup where
  "sum_ring ms k =
     (if ms = [] then ''''
      else fst (ms ! (sum_list (map of_char k) mod length ms)))"

text \<open>
  A router made with a discovery callback that has not answered yet: an empty
  offline queue, no ring, no server.
\<close>

definition discovering :: manager where
  "discovering =
     \<lparr> mgr_ended = False, offlineQueue = Some [], ring = None, hosts = [],
       replacementHosts = [], servers = Map.empty, next_promise = 0, trace = [] \<rparr>"

text \<open>A router connected to the single host \<open>host_a\<close>, nothing queued.\<close>

definition single_shard :: manager where
  "single_shard =
     connect sample_commands sum_ring [host_a] []
       \<lparr> mgr_ended = False, offlineQueue = None, ring = None, hosts = [],
         replacementHosts = [], servers = Map.empty, next_promise = 0, trace = [] \<rparr>"

text \<open>
  Two commands submitted while the discovery is pending, an unknown one and a
  key-addressed one; then the discovery answers with the host \<open>host_a\<close>.
\<close>

definition queued_two :: manager where
  "queued_two =
     snd (sendCommand sample_commands sum_ring ''GET'' [JStr ''k'']
       (snd (sendCommand sample_commands sum_ring ''FOO'' [JStr ''x''] discovering)))"

definition after_discovery :: manager where
  "after_discovery = connect sample_commands sum_ring [host_a] [] queued_two"

section \<open>Properties of the transport\<close>

subsection \<open>The frame that \<open>write\<close> emits\<close>

lemma utf8_append: "utf8 (a @ b) = utf8 a @ utf8 b"
  by (simp add: utf8_def)

lemma utf8_Nil: "utf8 [] = []"
  by (simp add: utf8_def)

lemma stream_bytes_writes: "stream_bytes (map StreamWrite out) = concat (map chunk_bytes out)"
  by (induction out) simp_all

text \<open>
  The invariant of the loop: the chunks written so far followed by the text not yet
  written are the frame up to the current argument.
\<close>

lemma write_loop_bytes:
  "write_loop pack command out = (command', out') \<Longrightarrow>
   concat (map chunk_bytes out') @ utf8 command'
     = concat (map chunk_bytes out) @ utf8 command @ concat (map arg_frame pack)"
proof (induction pack command out arbitrary: command' out' rule: write_loop.induct)
  case (1 command out)
  then show ?case by simp
next
  case (2 b rest command out)
  then show ?case
    by (simp add: utf8_append utf8_Nil)
qed (simp_all add: utf8_append Let_def)

lemma flush_bytes:
  "concat (map chunk_bytes (if command \<noteq> [] then out @ [Text command] else out))
     = concat (map chunk_bytes out) @ utf8 command"
  by (simp add: utf8_Nil)

lemma write_chunks_bytes: "concat (map chunk_bytes (write_chunks cmd pack)) = resp_frame cmd pack"
proof -
  obtain command' out' where
    w: "write_loop pack (''*'' @ show_nat (length pack + 1) @ crlf
                    @ ''$'' @ show_nat (length cmd) @ crlf @ cmd @ crlf) [] = (command', out')"
    by (cases "write_loop pack (''*'' @ show_nat (length pack + 1) @ crlf
                    @ ''$'' @ show_nat (length cmd) @ crlf @ cmd @ crlf) []")
  from write_loop_bytes [OF w] show ?thesis
    using w by (simp add: write_chunks_def resp_frame_def flush_bytes del: append_assoc)
qed

text \<open>
  C8.  For every command name and argument list, the bytes that \<open>write\<close> puts on the
  stream, concatenated, are the frame \<open>*<argc+1>\r\n$<len(cmd)>\r\n<cmd>\r\n\<close> followed
  per argument, in order, by \<open>$<len(arg)>\r\n<arg>\r\n\<close>: a Buffer verbatim behind its
  byte count, any other argument stringified first.
\<close>

theorem write_emits_frame:
  "stream_bytes (emitted c (conn_write cmd pack h c)) = resp_frame cmd pack"
  by (simp add: emitted_def conn_write_def stream_bytes_writes write_chunks_bytes)

subsection \<open>After \<open>end\<close>\<close>

lemma show_nat_small: "n < 10 \<Longrightarrow> show_nat n = [digit n]"
  by (simp add: show_nat.simps)

lemma write_chunks_PING:
  "write_chunks ''PING'' [] = [Text (''*1'' @ crlf @ ''$4'' @ crlf @ ''PING'' @ crlf)]"
  by (simp add: write_chunks_def show_nat_small digit_def)

lemma live_conn_fields:
  "\<not> ended live_conn" "\<not> reconnecting live_conn" "handlers live_conn = []"
  "reader live_conn = []" "retryDelay live_conn = 2000"
  "host_string (conn_host live_conn) = ''127.0.0.1:6379''"
  by (simp_all add: live_conn_def on_connect_def Connection_def host_a_def)

lemma ended_conn_fields: "ended ended_conn" "handlers ended_conn = []"
  by (simp_all add: ended_conn_def conn_end_def live_conn_fields)

text \<open>
  C4, as stated, fails: \<open>write\<close> on an ended connection appends the handler to the
  pending queue and hands the frame to the socket.
\<close>

theorem write_after_end_counterexample:
  "ended ended_conn \<and> handlers ended_conn = [] \<and>
   handlers (conn_write ''PING'' [] (HObj 0) ended_conn) = [HObj 0] \<and>
   emitted ended_conn (conn_write ''PING'' [] (HObj 0) ended_conn)
     = [StreamWrite (Text (''*1'' @ crlf @ ''$4'' @ crlf @ ''PING'' @ crlf))]"
  by (simp add: ended_conn_fields conn_write_def emitted_def write_chunks_PING)

text \<open>
  C4, amended.  After \<open>end()\<close> a second \<open>end()\<close> returns without doing anything, and a
  connection-loss signal (the method itself, and the \<open>close\<close> and \<open>end\<close> listeners of
  the socket) changes nothing, so it arms no timer.  \<open>write\<close> has no such guard: on
  an ended connection it still appends its handler to the pending queue and still
  hands the chunks of the frame to the socket.
\<close>

theorem ended_noop:
  assumes "ended c"
  shows "conn_end c = c \<and>
         connectionLost reason c = (None, c) \<and>
         on_close c = (None, c) \<and>
         on_end c = (None, c) \<and>
         handlers (conn_write cmd pack h c) = handlers c @ [h] \<and>
         emitted c (conn_write cmd pack h c) = map StreamWrite (write_chunks cmd pack)"
  using assms
  by (simp add: conn_end_def connectionLost_def on_close_def on_end_def conn_write_def
        emitted_def)

theorem ended_noop_witness:
  "ended ended_conn \<and> conn_end ended_conn = ended_conn \<and>
   connectionLost ''close'' ended_conn = (None, ended_conn) \<and>
   handlers (conn_write ''PING'' [] (HObj 0) ended_conn) = handlers ended_conn @ [HObj 0]"
proof -
  have e: "ended ended_conn"
    by (rule ended_conn_fields)
  from ended_noop [OF e, of "''close''" "''PING''" "[]" "HObj 0"] e show ?thesis by simp
qed

subsection \<open>The loss of the connection\<close>

lemma reject_all_objects:
  "reject_all s (map HObj ids) acc = (None, acc @ rejections s ids)"
  by (induction ids arbitrary: acc) (simp_all add: rejections_def)

lemma reject_all_function:
  "reject_all s (map HObj ids @ HFun f # post) acc =
     (Some (TypeError ''handler.reject is not a function''),
      acc @ rejections s ids @ [Call f (Some (lost_error s)) None])"
  by (induction ids arbitrary: acc) (simp_all add: rejections_def)

lemma connectionLost_objects:
  assumes "\<not> ended c" "\<not> reconnecting c" "handlers c = map HObj ids"
  shows "connectionLost reason c =
     (None, c\<lparr> connected := False, reconnecting := True, handlers := [],
               retryTimer := Some (retryDelay c),
               log := log c @ rejections (host_string (conn_host c)) ids @
                  [Emit ''reconnect'' '''', Emit ''debug'' reason, SetTimeout (retryDelay c)] \<rparr>)"
  using assms by (simp add: connectionLost_def reject_all_objects)

lemma connectionLost_function:
  assumes "\<not> ended c" "\<not> reconnecting c" "handlers c = map HObj ids @ HFun f # post"
  shows "connectionLost reason c =
     (Some (TypeError ''handler.reject is not a function''),
      c\<lparr> connected := False, reconnecting := True,
         log := log c @ rejections (host_string (conn_host c)) ids @
                  [Call f (Some (lost_error (host_string (conn_host c)))) None] \<rparr>)"
  using assms by (simp add: connectionLost_def reject_all_function)

lemma connectionLost_flags:
  "ended (snd (connectionLost r c)) \<or> reconnecting (snd (connectionLost r c))"
  by (auto simp: connectionLost_def Let_def split: prod.splits option.splits)

lemma connectionLost_twice:
  "connectionLost r2 (snd (connectionLost r1 c)) = (None, snd (connectionLost r1 c))"
  using connectionLost_flags [of r1 c] by (simp add: connectionLost_def [of r2])

lemma timers_armed_append: "timers_armed (a @ b) = timers_armed a + timers_armed b"
  by (induction a rule: timers_armed.induct) simp_all

lemma timers_armed_rejections: "timers_armed (rejections s ids) = 0"
  by (induction ids) (simp_all add: rejections_def)

text \<open>
  C6.  Two loss signals in succession.  The second one is ignored: it throws nothing
  and leaves the whole state as the first one left it, whatever the connection was.
  On a connection that was neither ended nor reconnecting, with result handles
  pending, the two signals together reject each pending handle once, in order, and
  arm the retry timer once.
\<close>

theorem loss_twice:
  "connectionLost r2 (snd (connectionLost r1 c)) = (None, snd (connectionLost r1 c)) \<and>
   (\<not> ended c \<and> \<not> reconnecting c \<and> handlers c = map HObj ids \<longrightarrow>
      emitted c (snd (connectionLost r2 (snd (connectionLost r1 c))))
        = rejections (host_string (conn_host c)) ids @
            [Emit ''reconnect'' '''', Emit ''debug'' r1, SetTimeout (retryDelay c)] \<and>
      timers_armed (emitted c (snd (connectionLost r2 (snd (connectionLost r1 c))))) = 1 \<and>
      handlers (snd (connectionLost r2 (snd (connectionLost r1 c)))) = [])"
proof -
  have twice: "connectionLost r2 (snd (connectionLost r1 c)) = (None, snd (connectionLost r1 c))"
    by (rule connectionLost_twice)
  show ?thesis
  proof (intro conjI impI)
    show "connectionLost r2 (snd (connectionLost r1 c)) = (None, snd (connectionLost r1 c))"
      by (rule twice)
  next
    assume live: "\<not> ended c \<and> \<not> reconnecting c \<and> handlers c = map HObj ids"
    then have first: "connectionLost r1 c =
     (None, c\<lparr> connected := False, reconnecting := True, handlers := [],
               retryTimer := Some (retryDelay c),
               log := log c @ rejections (host_string (conn_host c)) ids @
                  [Emit ''reconnect'' '''', Emit ''debug'' r1, SetTimeout (retryDelay c)] \<rparr>)"
      by (simp add: connectionLost_objects)
    show "emitted c (snd (connectionLost r2 (snd (connectionLost r1 c))))
        = rejections (host_string (conn_host c)) ids @
            [Emit ''reconnect'' '''', Emit ''debug'' r1, SetTimeout (retryDelay c)]"
      unfolding twice by (simp add: first emitted_def)
    then show "timers_armed (emitted c (snd (connectionLost r2 (snd (connectionLost r1 c))))) = 1"
      by (simp add: timers_armed_append timers_armed_rejections)
    show "handlers (snd (connectionLost r2 (snd (connectionLost r1 c)))) = []"
      unfolding twice by (simp add: first)
  qed
qed

lemma pending2_fields:
  "handlers pending2 = map HObj [0, 1]" "reader pending2 = []"
  "\<not> ended pending2" "\<not> reconnecting pending2" "retryDelay pending2 = 2000"
  "host_string (conn_host pending2) = ''127.0.0.1:6379''"
  by (simp_all add: pending2_def conn_write_def live_conn_fields)

theorem loss_twice_witness:
  "\<not> ended pending2 \<and> \<not> reconnecting pending2 \<and> handlers pending2 = map HObj [0, 1] \<and>
   emitted pending2 (snd (connectionLost ''end'' (snd (connectionLost ''close'' pending2))))
     = [Reject 0 (lost_error ''127.0.0.1:6379''), Reject 1 (lost_error ''127.0.0.1:6379''),
        Emit ''reconnect'' '''', Emit ''debug'' ''close'', SetTimeout 2000] \<and>
   timers_armed
     (emitted pending2 (snd (connectionLost ''end'' (snd (connectionLost ''close'' pending2))))) = 1"
proof -
  have live: "\<not> ended pending2 \<and> \<not> reconnecting pending2 \<and> handlers pending2 = map HObj [0, 1]"
    by (simp add: pending2_fields)
  from loss_twice [of "''end''" "''close''" pending2 "[0, 1]"] live
  have "emitted pending2 (snd (connectionLost ''end'' (snd (connectionLost ''close'' pending2))))
          = rejections (host_string (conn_host pending2)) [0, 1] @
              [Emit ''reconnect'' '''', Emit ''debug'' ''close'', SetTimeout (retryDelay pending2)] \<and>
        timers_armed
          (emitted pending2 (snd (connectionLost ''end'' (snd (connectionLost ''close'' pending2))))) = 1"
    by blast
  with live show ?thesis
    by (simp add: pending2_fields rejections_def)
qed

text \<open>
  C10.  On a connection that is neither ended nor reconnecting: when every pending
  handler is a \<open>{resolve, reject}\<close> object, the loss handler returns normally, having
  called \<open>reject\<close> with the connection-lost error once per pending handler, in order,
  and the queue is empty.  When the first handler that is not such an object is a
  function, that function is called with the error, and the call of its \<open>reject\<close>
  that follows has no target: a TypeError leaves the method with the queue as it was
  and no timer armed; the handlers behind the function are not notified.
\<close>

theorem loss_notifies:
  assumes "\<not> ended c" and "\<not> reconnecting c"
  shows "(handlers c = map HObj ids \<longrightarrow>
           fst (connectionLost reason c) = None \<and>
           emitted c (snd (connectionLost reason c))
             = rejections (host_string (conn_host c)) ids @
                 [Emit ''reconnect'' '''', Emit ''debug'' reason, SetTimeout (retryDelay c)] \<and>
           handlers (snd (connectionLost reason c)) = []) \<and>
         (handlers c = map HObj ids @ HFun f # post \<longrightarrow>
           fst (connectionLost reason c) = Some (TypeError ''handler.reject is not a function'') \<and>
           emitted c (snd (connectionLost reason c))
             = rejections (host_string (conn_host c)) ids @
                 [Call f (Some (lost_error (host_string (conn_host c)))) None] \<and>
           handlers (snd (connectionLost reason c)) = handlers c \<and>
           retryTimer (snd (connectionLost reason c)) = retryTimer c)"
  using assms
  by (simp add: connectionLost_objects connectionLost_function emitted_def)

lemma mixed_conn_fields:
  "\<not> ended mixed_conn" "\<not> reconnecting mixed_conn"
  "handlers mixed_conn = map HObj [0] @ HFun 1 # [HObj 2]"
  "host_string (conn_host mixed_conn) = ''127.0.0.1:6379''"
  "retryTimer mixed_conn = None"
  by (simp_all add: mixed_conn_def live_conn_def on_connect_def Connection_def host_a_def)

theorem loss_notifies_witness:
  "\<not> ended pending2 \<and> \<not> reconnecting pending2 \<and> handlers pending2 = map HObj [0, 1] \<and>
   fst (connectionLost ''close'' pending2) = None \<and>
   emitted pending2 (snd (connectionLost ''close'' pending2))
     = [Reject 0 (lost_error ''127.0.0.1:6379''), Reject 1 (lost_error ''127.0.0.1:6379''),
        Emit ''reconnect'' '''', Emit ''debug'' ''close'', SetTimeout 2000] \<and>
   \<not> ended mixed_conn \<and> \<not> reconnecting mixed_conn \<and>
   handlers mixed_conn = map HObj [0] @ HFun 1 # [HObj 2] \<and>
   fst (connectionLost ''close'' mixed_conn)
     = Some (TypeError ''handler.reject is not a function'') \<and>
   emitted mixed_conn (snd (connectionLost ''close'' mixed_conn))
     = [Reject 0 (lost_error ''127.0.0.1:6379''),
        Call 1 (Some (lost_error ''127.0.0.1:6379'')) None] \<and>
   handlers (snd (connectionLost ''close'' mixed_conn)) = [HObj 0, HFun 1, HObj 2] \<and>
   retryTimer (snd (connectionLost ''close'' mixed_conn)) = None"
  using loss_notifies [where c = pending2 and ids = "[0, 1]" and reason = "''close''"]
    loss_notifies [where c = mixed_conn and ids = "[0]" and f = 1 and post = "[HObj 2]"
                     and reason = "''close''"]
  by (simp add: pending2_fields mixed_conn_fields rejections_def)

subsection \<open>The \<open>data\<close> listener\<close>

text \<open>
  C9.  When the decoder throws on the bytes fed so far, the listener emits an
  \<open>error\<close> event and destroys the socket, and does nothing else: the pending queue is
  as it was and no handler is called.  The handlers are rejected by the loss handler,
  which the \<open>close\<close> of the destroyed socket runs (here for a connection neither
  ended nor reconnecting, with result handles pending).
\<close>

theorem parse_failure_keeps_handlers:
  assumes "dec (reader c @ data) = ProtocolError msg"
  shows "on_data dec data c =
           (None, c\<lparr> reader := reader c @ data,
                     log := log c @ [Emit ''error'' (''Parser error: '' @ msg), StreamDestroy] \<rparr>) \<and>
         handlers (snd (on_data dec data c)) = handlers c \<and>
         emitted c (snd (on_data dec data c))
           = [Emit ''error'' (''Parser error: '' @ msg), StreamDestroy] \<and>
         (\<not> ended c \<and> \<not> reconnecting c \<and> handlers c = map HObj ids \<longrightarrow>
          emitted (snd (on_data dec data c)) (snd (on_close (snd (on_data dec data c))))
            = rejections (host_string (conn_host c)) ids @
                [Emit ''reconnect'' '''', Emit ''debug'' ''close'', SetTimeout (retryDelay c)])"
proof (intro conjI)
  show 1: "on_data dec data c =
           (None, c\<lparr> reader := reader c @ data,
                     log := log c @ [Emit ''error'' (''Parser error: '' @ msg), StreamDestroy] \<rparr>)"
    using assms by (simp add: on_data_def)
  show "handlers (snd (on_data dec data c)) = handlers c"
    by (simp add: 1)
  show "emitted c (snd (on_data dec data c))
           = [Emit ''error'' (''Parser error: '' @ msg), StreamDestroy]"
    by (simp add: 1 emitted_def)
  show "\<not> ended c \<and> \<not> reconnecting c \<and> handlers c = map HObj ids \<longrightarrow>
         emitted (snd (on_data dec data c)) (snd (on_close (snd (on_data dec data c))))
           = rejections (host_string (conn_host c)) ids @
               [Emit ''reconnect'' '''', Emit ''debug'' ''close'', SetTimeout (retryDelay c)]"
    by (simp add: 1 on_close_def connectionLost_objects emitted_def)
qed

lemma line_decoder_x:
  "line_decoder (utf8 ''x'') = ProtocolError ''Protocol error, got x as reply type byte''"
  by code_simp

theorem parse_failure_keeps_handlers_witness:
  "line_decoder (reader pending2 @ utf8 ''x'')
     = ProtocolError ''Protocol error, got x as reply type byte'' \<and>
   handlers (snd (on_data line_decoder (utf8 ''x'') pending2)) = [HObj 0, HObj 1] \<and>
   emitted pending2 (snd (on_data line_decoder (utf8 ''x'') pending2))
     = [Emit ''error'' ''Parser error: Protocol error, got x as reply type byte'',
        StreamDestroy] \<and>
   emitted (snd (on_data line_decoder (utf8 ''x'') pending2))
       (snd (on_close (snd (on_data line_decoder (utf8 ''x'') pending2))))
     = [Reject 0 (lost_error ''127.0.0.1:6379''), Reject 1 (lost_error ''127.0.0.1:6379''),
        Emit ''reconnect'' '''', Emit ''debug'' ''close'', SetTimeout 2000]"
proof -
  have d: "line_decoder (reader pending2 @ utf8 ''x'')
             = ProtocolError ''Protocol error, got x as reply type byte''"
    by (simp add: pending2_fields line_decoder_x)
  have live: "\<not> ended pending2 \<and> \<not> reconnecting pending2 \<and> handlers pending2 = map HObj [0, 1]"
    by (simp add: pending2_fields)
  from parse_failure_keeps_handlers
         [where dec = line_decoder and c = pending2 and data = "utf8 ''x''" and ids = "[0, 1]", OF d]
       live
  have "handlers (snd (on_data line_decoder (utf8 ''x'') pending2)) = handlers pending2 \<and>
        emitted pending2 (snd (on_data line_decoder (utf8 ''x'') pending2))
          = [Emit ''error'' (''Parser error: '' @ ''Protocol error, got x as reply type byte''),
             StreamDestroy] \<and>
        emitted (snd (on_data line_decoder (utf8 ''x'') pending2))
            (snd (on_close (snd (on_data line_decoder (utf8 ''x'') pending2))))
          = rejections (host_string (conn_host pending2)) [0, 1] @
              [Emit ''reconnect'' '''', Emit ''debug'' ''close'', SetTimeout (retryDelay pending2)]"
    by blast
  with d show ?thesis
    by (simp add: pending2_fields rejections_def)
qed

text \<open>
  One reply completed by a chunk, a handler object at the head of the queue: the
  reply settles that handler and leaves the rest of the queue.
\<close>

lemma on_data_settles_head:
  assumes "dec (reader c @ d) = Decoded r rest" and "handlers c = HObj i # hs"
  shows "on_data dec d c =
           (None, c\<lparr> reader := rest, handlers := hs, log := log c @ [settle i r] \<rparr>)"
  using assms by (cases r) (simp_all add: on_data_def settle_def)

text \<open>
  When every chunk carries exactly one whole reply, the replies settle the pending
  handles in the order of the writes.
\<close>

lemma fifo_one_reply_per_chunk:
  assumes "\<forall>(d, r, i) \<in> set xs. dec d = Decoded r []"
    and "reader c = []"
    and "handlers c = map (\<lambda>(d, r, i). HObj i) xs @ rest"
  shows "handlers (feed_chunks dec (map fst xs) c) = rest \<and>
         reader (feed_chunks dec (map fst xs) c) = [] \<and>
         log (feed_chunks dec (map fst xs) c) = log c @ map (\<lambda>(d, r, i). settle i r) xs"
  using assms
proof (induction xs arbitrary: c)
  case Nil
  then show ?case by simp
next
  case (Cons x xs)
  obtain d r i where x: "x = (d, r, i)"
    by (cases x)
  from Cons.prems x have step:
    "on_data dec d c = (None, c\<lparr> reader := [], handlers := map (\<lambda>(d, r, i). HObj i) xs @ rest,
                                   log := log c @ [settle i r] \<rparr>)"
    by (intro on_data_settles_head) simp_all
  let ?c = "c\<lparr> reader := [], handlers := map (\<lambda>(d, r, i). HObj i) xs @ rest,
               log := log c @ [settle i r] \<rparr>"
  have "handlers (feed_chunks dec (map fst xs) ?c) = rest \<and>
        reader (feed_chunks dec (map fst xs) ?c) = [] \<and>
        log (feed_chunks dec (map fst xs) ?c) = log ?c @ map (\<lambda>(d, r, i). settle i r) xs"
    using Cons.prems by (intro Cons.IH) simp_all
  then show ?case
    by (simp add: x step)
qed

lemma line_decoder_two_replies:
  "line_decoder two_replies = Decoded (RStatus ''OK'') (utf8 (''+OK'' @ crlf))"
  unfolding two_replies_def by code_simp

text \<open>
  C2 at a failing input.  Two handles are pending and one chunk carries both replies:
  the listener asks the decoder once, so the first handle is resolved and the second
  stays in the queue, its reply in the decoder's buffer.
\<close>

theorem one_reply_per_data_event:
  "handlers pending2 = [HObj 0, HObj 1] \<and>
   handlers (snd (on_data line_decoder two_replies pending2)) = [HObj 1] \<and>
   emitted pending2 (snd (on_data line_decoder two_replies pending2))
     = [Resolve 0 (RStatus ''OK'')] \<and>
   reader (snd (on_data line_decoder two_replies pending2)) = utf8 (''+OK'' @ crlf)"
  by (simp add: on_data_def pending2_fields line_decoder_two_replies emitted_def)

section \<open>Properties of the router\<close>

subsection \<open>The hashed key\<close>

text \<open>The inner loop: up to the first \<open>}\<close> at or after \<open>j\<close>, or to the end.\<close>

lemma find_close_found:
  "j \<le> q \<Longrightarrow> q < length key \<Longrightarrow> key ! q = CHR ''}'' \<Longrightarrow>
   (\<And>k. j \<le> k \<Longrightarrow> k < q \<Longrightarrow> key ! k \<noteq> CHR ''}'') \<Longrightarrow>
   find_close key i j = substring key (i + 1) q"
proof (induction "q - j" arbitrary: j)
  case 0
  then have "j = q" by simp
  with 0 show ?case by (simp add: find_close.simps [of key i q])
next
  case (Suc n)
  then have lt: "j < q" and ne: "key ! j \<noteq> CHR ''}''" by simp_all
  with Suc.prems have "find_close key i j = find_close key i (j + 1)"
    by (simp add: find_close.simps [of key i j])
  also have "\<dots> = substring key (i + 1) q"
    using Suc.hyps(2) lt Suc.prems by (intro Suc.hyps(1)) simp_all
  finally show ?case .
qed

lemma find_close_none:
  "(\<And>k. j \<le> k \<Longrightarrow> k < length key \<Longrightarrow> key ! k \<noteq> CHR ''}'') \<Longrightarrow>
   find_close key i j = key"
proof (induction "length key - j" arbitrary: j)
  case 0
  then show ?case by (simp add: find_close.simps [of key i j])
next
  case (Suc n)
  then have "find_close key i j = find_close key i (j + 1)"
    by (simp add: find_close.simps [of key i j])
  also have "\<dots> = key"
    using Suc.hyps(2) Suc.prems by (intro Suc.hyps(1)) simp_all
  finally show ?case .
qed

text \<open>The outer loop: up to the first \<open>{\<close> at or after \<open>i\<close>, or to the end.\<close>

lemma find_open_found:
  "i \<le> p \<Longrightarrow> p < length key \<Longrightarrow> key ! p = CHR ''{'' \<Longrightarrow>
   (\<And>k. i \<le> k \<Longrightarrow> k < p \<Longrightarrow> key ! k \<noteq> CHR ''{'') \<Longrightarrow>
   find_open key i = find_close key p (p + 1)"
proof (induction "p - i" arbitrary: i)
  case 0
  then have "i = p" by simp
  with 0 show ?case by (simp add: find_open.simps [of key p])
next
  case (Suc n)
  then have lt: "i < p" and ne: "key ! i \<noteq> CHR ''{''" by simp_all
  with Suc.prems have "find_open key i = find_open key (i + 1)"
    by (simp add: find_open.simps [of key i])
  also have "\<dots> = find_close key p (p + 1)"
    using Suc.hyps(2) lt Suc.prems by (intro Suc.hyps(1)) simp_all
  finally show ?case .
qed

lemma find_open_none:
  "(\<And>k. i \<le> k \<Longrightarrow> k < length key \<Longrightarrow> key ! k \<noteq> CHR ''{'') \<Longrightarrow>
   find_open key i = key"
proof (induction "length key - i" arbitrary: i)
  case 0
  then show ?case by (simp add: find_open.simps [of key i])
next
  case (Suc n)
  then have "find_open key i = find_open key (i + 1)"
    by (simp add: find_open.simps [of key i])
  also have "\<dots> = key"
    using Suc.hyps(2) Suc.prems by (intro Suc.hyps(1)) simp_all
  finally show ?case .
qed

lemma nth_notin: "c \<notin> set xs \<Longrightarrow> k < length xs \<Longrightarrow> xs ! k \<noteq> c"
  by (metis nth_mem)

text \<open>A key cut at its first \<open>{\<close>: the outer loop hands over to the inner one there.\<close>

lemma hash_tag_open:
  assumes "CHR ''{'' \<notin> set pre"
  shows "hash_tag (pre @ CHR ''{'' # rest)
           = find_close (pre @ CHR ''{'' # rest) (length pre) (length pre + 1)"
  unfolding hash_tag_def
proof (rule find_open_found)
  fix k assume "k < length pre"
  with assms show "(pre @ CHR ''{'' # rest) ! k \<noteq> CHR ''{''"
    by (simp add: nth_append nth_notin)
qed simp_all

text \<open>
  The first \<open>{\<close> and the first \<open>}\<close> after it: the key becomes what stands between
  them, also when nothing does.
\<close>

lemma hash_tag_between:
  assumes "CHR ''{'' \<notin> set pre" and "CHR ''}'' \<notin> set tag"
  shows "hash_tag (pre @ CHR ''{'' # tag @ CHR ''}'' # post) = tag"
proof -
  let ?key = "pre @ CHR ''{'' # tag @ CHR ''}'' # post"
  have "find_close ?key (length pre) (length pre + 1)
          = substring ?key (length pre + 1) (length pre + 1 + length tag)"
  proof (rule find_close_found)
    show "?key ! (length pre + 1 + length tag) = CHR ''}''"
      by (simp add: nth_append)
  next
    fix k assume lo: "length pre + 1 \<le> k" and hi: "k < length pre + 1 + length tag"
    define d where "d = k - (length pre + 1)"
    have k: "k = length pre + 1 + d"
      using lo by (simp add: d_def)
    have d: "d < length tag"
      using hi k by simp
    have "?key ! k = tag ! d"
      using d by (simp add: k nth_append)
    with assms(2) d show "?key ! k \<noteq> CHR ''}''"
      by (simp add: nth_notin)
  qed simp_all
  also have "\<dots> = tag"
    by (simp add: substring_def)
  finally show ?thesis
    using hash_tag_open [OF assms(1)] by simp
qed

text \<open>No \<open>{\<close>, or no \<open>}\<close> behind the first \<open>{\<close>: the key stays whole.\<close>

lemma hash_tag_no_open:
  assumes "CHR ''{'' \<notin> set key"
  shows "hash_tag key = key"
  unfolding hash_tag_def using assms by (intro find_open_none) (simp add: nth_notin)

lemma hash_tag_no_close:
  assumes "CHR ''{'' \<notin> set pre" and "CHR ''}'' \<notin> set rest"
  shows "hash_tag (pre @ CHR ''{'' # rest) = pre @ CHR ''{'' # rest"
proof -
  have "find_close (pre @ CHR ''{'' # rest) (length pre) (length pre + 1) = pre @ CHR ''{'' # rest"
  proof (rule find_close_none)
    fix k assume lo: "length pre + 1 \<le> k" and hi: "k < length (pre @ CHR ''{'' # rest)"
    define d where "d = k - (length pre + 1)"
    have k: "k = length pre + 1 + d"
      using lo by (simp add: d_def)
    have d: "d < length rest"
      using hi k by simp
    have "(pre @ CHR ''{'' # rest) ! k = rest ! d"
      by (simp add: k nth_append)
    with assms(2) d show "(pre @ CHR ''{'' # rest) ! k \<noteq> CHR ''}''"
      by (simp add: nth_notin)
  qed
  with hash_tag_open [OF assms(1)] show ?thesis by simp
qed

lemma hash_tag_empty_tag:
  assumes "CHR ''{'' \<notin> set pre"
  shows "hash_tag (pre @ ''{}'' @ post) = ''''"
  using hash_tag_between [OF assms, of "[]" post] by simp

text \<open>
  C1, as stated, fails: the key \<open>foo{}\<close> has an empty tag, and the ring is asked for
  the empty string, not for \<open>foo{}\<close>.
\<close>

theorem empty_tag_counterexample:
  "hash_tag ''foo{}'' = '''' \<and>
   serverNameForKey asked_key [] (JStr ''foo{}'') = '''' \<and>
   serverNameForKey asked_key [] (JStr ''foo{}'') \<noteq> ''foo{}''"
proof -
  have "hash_tag (''foo'' @ ''{}'' @ '''') = ''''"
    by (rule hash_tag_empty_tag) simp
  then show ?thesis
    by (simp add: serverNameForKey_def asked_key_def)
qed

text \<open>
  C1, amended.  For every key whose first \<open>{\<close> is followed at once by a \<open>}\<close> (an
  empty hash tag), \<open>serverNameForKey\<close> takes what stands between the two, the empty
  string, as the hashing key: the ring is asked for the empty string.
\<close>

theorem empty_tag_hashes_empty_string:
  assumes "CHR ''{'' \<notin> set pre"
  shows "serverNameForKey getCached ms (JStr (pre @ ''{}'' @ post)) = getCached ms ''''"
  using hash_tag_empty_tag [OF assms, of post] by (simp add: serverNameForKey_def)

theorem empty_tag_hashes_empty_string_witness:
  "CHR ''{'' \<notin> set ''foo'' \<and>
   serverNameForKey asked_key [] (JStr (''foo'' @ ''{}'' @ '''')) = asked_key [] ''''"
proof -
  have p: "CHR ''{'' \<notin> set ''foo''"
    by simp
  from empty_tag_hashes_empty_string [OF p, of asked_key "[]" "''''"] p
  show ?thesis by simp
qed

text \<open>
  C5, as stated, fails: the key \<open>foo{}bar\<close> contains no tag that encloses a non-empty
  substring, and it is not hashed whole: the ring is asked for the empty string.
\<close>

theorem no_nonempty_tag_counterexample:
  "serverNameForKey asked_key [] (JStr ''foo{}bar'') = '''' \<and>
   serverNameForKey asked_key [] (JStr ''foo{}bar'') \<noteq> ''foo{}bar''"
proof -
  have "hash_tag (''foo'' @ ''{}'' @ ''bar'') = ''''"
    by (rule hash_tag_empty_tag) simp
  then show ?thesis
    by (simp add: serverNameForKey_def asked_key_def)
qed

text \<open>
  C5, amended.  For every key whose first \<open>{\<close> has a later \<open>}\<close>, the substring between
  the first \<open>{\<close> and the first \<open>}\<close> after it becomes the hashing key, empty or not
  (\<open>foo{bar}baz\<close> hashes \<open>bar\<close>, \<open>a{b}{c}\<close> hashes \<open>b\<close>); for every key with no \<open>{\<close>, and
  for every key with no \<open>}\<close> after its first \<open>{\<close>, the whole original string is hashed
  (\<open>plainkey\<close> hashes \<open>plainkey\<close>).
\<close>

theorem hash_tag_extraction:
  "(CHR ''{'' \<notin> set pre \<and> CHR ''}'' \<notin> set tag \<longrightarrow>
      serverNameForKey getCached ms (JStr (pre @ CHR ''{'' # tag @ CHR ''}'' # post))
        = getCached ms tag) \<and>
   (CHR ''{'' \<notin> set key \<longrightarrow>
      serverNameForKey getCached ms (JStr key) = getCached ms key) \<and>
   (CHR ''{'' \<notin> set pre \<and> CHR ''}'' \<notin> set rest \<longrightarrow>
      serverNameForKey getCached ms (JStr (pre @ CHR ''{'' # rest))
        = getCached ms (pre @ CHR ''{'' # rest))"
  by (simp add: serverNameForKey_def hash_tag_between hash_tag_no_open hash_tag_no_close)

theorem hash_tag_extraction_witness:
  "serverNameForKey asked_key [] (JStr ''foo{bar}baz'') = ''bar'' \<and>
   serverNameForKey asked_key [] (JStr ''a{b}{c}'') = ''b'' \<and>
   serverNameForKey asked_key [] (JStr ''plainkey'') = ''plainkey'' \<and>
   serverNameForKey asked_key [] (JStr ''open{only'') = ''open{only''"
proof -
  have 1: "serverNameForKey asked_key []
             (JStr (''foo'' @ CHR ''{'' # ''bar'' @ CHR ''}'' # ''baz'')) = asked_key [] ''bar''"
    using hash_tag_extraction [of "''foo''" "''bar''" asked_key "[]" "''baz''"] by simp
  have 2: "serverNameForKey asked_key []
             (JStr (''a'' @ CHR ''{'' # ''b'' @ CHR ''}'' # ''{c}'')) = asked_key [] ''b''"
    using hash_tag_extraction [of "''a''" "''b''" asked_key "[]" "''{c}''"] by simp
  have 3: "serverNameForKey asked_key [] (JStr ''plainkey'') = asked_key [] ''plainkey''"
    using hash_tag_extraction [where key = "''plainkey''" and getCached = asked_key and ms = "[]"]
    by simp
  have 4: "serverNameForKey asked_key [] (JStr (''open'' @ CHR ''{'' # ''only''))
             = asked_key [] (''open'' @ CHR ''{'' # ''only'')"
    using hash_tag_extraction [where pre = "''open''" and rest = "''only''"
                                 and getCached = asked_key and ms = "[]"]
    by simp
  from 1 2 3 4 show ?thesis
    by (simp add: asked_key_def)
qed

subsection \<open>A ring of one member\<close>

text \<open>
  The test \<open>this.ring.members.length === 1\<close> is false whatever the members are.
\<close>

lemma strictly_one_never: "\<not> strictly_one v"
  by (simp add: strictly_one_def split: option.splits)

text \<open>
  So, with a ring, a router that is not ended and no offline queue, a supported
  command without router goes by its key argument when it names one, and is
  rejected as not supported when it names none, however many members the ring has.
\<close>

lemma keyless_command_rejected:
  assumes "\<not> mgr_ended m" and "offlineQueue m = None" and "ring m = Some ms"
    and "commands cmd = Some d" and "d_supported d \<noteq> Some False" and "\<not> d_router d"
    and "d_key d = None"
  shows "sendCommand commands getCached cmd args m =
           (next_promise m,
            reject (next_promise m) (Error (''Command not supported: '' @ cmd))
              (m\<lparr> next_promise := Suc (next_promise m) \<rparr>))"
  using assms by (simp add: sendCommand_def Let_def strictly_one_never)

lemma keyed_command_by_key:
  assumes "\<not> mgr_ended m" and "offlineQueue m = None" and "ring m = Some ms"
    and "commands cmd = Some d" and "d_supported d \<noteq> Some False" and "\<not> d_router d"
    and "d_key d = Some k"
  shows "sendCommand commands getCached cmd args m =
           (next_promise m,
            sendToServer
              (serverNameForKey getCached ms
                 (arg_at (case args of [JArr xs] \<Rightarrow> xs | _ \<Rightarrow> args) k))
              cmd (case args of [JArr xs] \<Rightarrow> xs | _ \<Rightarrow> args)
              (next_promise m) (m\<lparr> next_promise := Suc (next_promise m) \<rparr>))"
  using assms by (simp add: sendCommand_def Let_def strictly_one_never)

lemma single_shard_fields:
  "ring single_shard =
     Some [(''127.0.0.1:6379'', \<lparr> member_key = ''127.0.0.1:6379'', member_weight = 1 \<rparr>)]"
  "\<not> mgr_ended single_shard" "offlineQueue single_shard = None"
  "servers single_shard ''127.0.0.1:6379'' = Some host_a"
  "next_promise single_shard = 0" "trace single_shard = []"
  by (simp_all add: single_shard_def connect_def addServer_def default_port_def host_a_def
        Let_def)

lemma sum_ring_single: "sum_ring [(k, mem)] key = k"
  by (simp add: sum_ring_def)

lemma sample_commands_PING:
  "sample_commands ''PING'' = Some \<lparr> d_supported = Some True, d_key = None, d_router = False \<rparr>"
  by (simp add: sample_commands_def)

lemma sample_commands_GET:
  "sample_commands ''GET'' = Some \<lparr> d_supported = None, d_key = Some 0, d_router = False \<rparr>"
  by (simp add: sample_commands_def)

text \<open>
  C7 at a failing input.  The ring has exactly one member and \<open>PING\<close> is a supported
  command with no router and no key argument: it is rejected with
  \<open>Command not supported: PING\<close>, not sent to the member.  (The keyed command \<open>GET\<close>
  reaches the member, by the ring's lookup of its key.)
\<close>

theorem single_member_keyless_command_rejected:
  "ring single_shard =
     Some [(''127.0.0.1:6379'', \<lparr> member_key = ''127.0.0.1:6379'', member_weight = 1 \<rparr>)] \<and>
   sample_commands ''PING''
     = Some \<lparr> d_supported = Some True, d_key = None, d_router = False \<rparr> \<and>
   trace (snd (sendCommand sample_commands sum_ring ''PING'' [] single_shard))
     = [Rejected 0 (Error ''Command not supported: PING'')] \<and>
   trace (snd (sendCommand sample_commands sum_ring ''GET'' [JStr ''other''] single_shard))
     = [ServerSend ''127.0.0.1:6379'' ''GET'' [JStr ''other''] 0]"
proof -
  have ping: "sendCommand sample_commands sum_ring ''PING'' [] single_shard =
           (next_promise single_shard,
            reject (next_promise single_shard) (Error (''Command not supported: '' @ ''PING''))
              (single_shard\<lparr> next_promise := Suc (next_promise single_shard) \<rparr>))"
    by (rule keyless_command_rejected
          [where commands = sample_commands and cmd = "''PING''",
           OF single_shard_fields(2) single_shard_fields(3) single_shard_fields(1)
              sample_commands_PING]) simp_all
  have get: "sendCommand sample_commands sum_ring ''GET'' [JStr ''other''] single_shard =
           (next_promise single_shard,
            sendToServer
              (serverNameForKey sum_ring
                 [(''127.0.0.1:6379'', \<lparr> member_key = ''127.0.0.1:6379'', member_weight = 1 \<rparr>)]
                 (arg_at (case [JStr ''other''] of [JArr xs] \<Rightarrow> xs | _ \<Rightarrow> [JStr ''other'']) 0))
              ''GET'' (case [JStr ''other''] of [JArr xs] \<Rightarrow> xs | _ \<Rightarrow> [JStr ''other''])
              (next_promise single_shard)
              (single_shard\<lparr> next_promise := Suc (next_promise single_shard) \<rparr>))"
    by (rule keyed_command_by_key
          [where commands = sample_commands and cmd = "''GET''",
           OF single_shard_fields(2) single_shard_fields(3) single_shard_fields(1)
              sample_commands_GET]) simp_all
  show ?thesis
    by (simp add: ping get reject_def sendToServer_def serverNameForKey_def sum_ring_single
          single_shard_fields sample_commands_PING)
qed

subsection \<open>The offline queue\<close>

text \<open>
  While there is an offline queue and the router is not ended, \<open>sendCommand\<close> only
  queues: the command, its arguments and the new promise's handle.
\<close>

lemma sendCommand_queues:
  assumes "\<not> mgr_ended m" and "offlineQueue m = Some q"
  shows "sendCommand commands getCached cmd args m =
           (next_promise m,
            m\<lparr> next_promise := Suc (next_promise m),
               offlineQueue := Some (q @ [(cmd, args, next_promise m)]) \<rparr>)"
  using assms by (simp add: sendCommand_def Let_def queue_push_def)

lemma queued_two_fields:
  "offlineQueue queued_two = Some [(''FOO'', [JStr ''x''], 0), (''GET'', [JStr ''k''], 1)]"
  "trace queued_two = []" "next_promise queued_two = 2" "\<not> mgr_ended queued_two"
  "hosts queued_two = []" "ring queued_two = None"
  by (simp_all add: queued_two_def discovering_def sendCommand_queues)

text \<open>
  C3 at a failing input.  The unknown command \<open>FOO\<close> is queued with the handle of
  promise 0 and the command \<open>GET k\<close> with the handle of promise 1.  When the host
  attaches, each entry goes through \<open>sendCommand\<close> again, which makes a promise of
  its own: promise 2 is the one rejected with \<open>Command not supported: FOO\<close>, and the
  server receives \<open>GET\<close> for promise 3 with the queued array and the queued handle as
  its two arguments.  Nothing is done to the handles of promises 0 and 1.
\<close>

theorem offline_entries_get_new_promises:
  "offlineQueue queued_two = Some [(''FOO'', [JStr ''x''], 0), (''GET'', [JStr ''k''], 1)] \<and>
   trace queued_two = [] \<and>
   offlineQueue after_discovery = None \<and>
   trace after_discovery =
     [Rejected 2 (Error ''Command not supported: FOO''),
      ServerSend ''127.0.0.1:6379'' ''GET'' [JArr [JStr ''k''], JHandler 1] 3]"
  by (simp add: after_discovery_def connect_def queued_two_fields addServer_def
        default_port_def host_a_def queue_drain_def sendCommand_def Let_def reject_def
        sample_commands_def sendToServer_def serverNameForKey_def sum_ring_def
        strictly_one_never arg_at_def)

end
